theory Spec2Isabelle
  imports Main "HOL-Library.Sublist"
begin

section \<open>Python values and exceptions\<close>

text \<open>
  The values the two backend modules handle are what \<^verbatim>\<open>response.json()\<close> yields and
  what the methods build from it: \<^verbatim>\<open>None\<close>, booleans, integers, strings, lists and
  dictionaries. A dictionary is an association list in which the first binding of a key
  is the one a lookup finds. JSON numbers are integers here; no method of the two
  modules computes with a number.
\<close>

datatype pyval =
    PNone
  | PBool bool
  | PInt int
  | PStr string
  | PList "pyval list"
  | PDict "(string \<times> pyval) list"

text \<open>
  An exception is its class and the text \<^verbatim>\<open>str(e)\<close> gives. The first four classes
  are the ones of the \<^verbatim>\<open>requests\<close> library (all subclasses of
  \<^verbatim>\<open>RequestException\<close>), the next two are raised by the interpreter, and
  \<open>OtherException\<close> stands for any other subclass of \<^verbatim>\<open>Exception\<close>, with its name.
  These are the exceptions an \<^verbatim>\<open>except Exception\<close> clause catches; \<^verbatim>\<open>KeyboardInterrupt\<close>
  and \<^verbatim>\<open>SystemExit\<close>, which it does not catch, are not errors of a call and are left out.
\<close>

datatype exc_class =
    HTTPError
  | ConnectionError
  | Timeout
  | JSONDecodeError
  | AttributeError
  | TypeError
  | OtherException string

datatype py_exception = PyException (exc_class: exc_class) (exc_str: string)

text \<open>Sequencing of two computations, the first of which may raise.\<close>

definition exc_bind :: "py_exception + 'a \<Rightarrow> ('a \<Rightarrow> py_exception + 'b) \<Rightarrow> py_exception + 'b" where
  "exc_bind r f = (case r of Inl e \<Rightarrow> Inl e | Inr v \<Rightarrow> f v)"

text \<open>\<^verbatim>\<open>try: body  except Exception as e: handler\<close>.\<close>

definition try_except :: "py_exception + 'a \<Rightarrow> (py_exception \<Rightarrow> py_exception + 'a) \<Rightarrow> py_exception + 'a" where
  "try_except body handler = (case body of Inl e \<Rightarrow> handler e | Inr v \<Rightarrow> Inr v)"

fun type_name :: "pyval \<Rightarrow> string" where
  "type_name PNone = ''NoneType''"
| "type_name (PBool b) = ''bool''"
| "type_name (PInt i) = ''int''"
| "type_name (PStr s) = ''str''"
| "type_name (PList xs) = ''list''"
| "type_name (PDict kvs) = ''dict''"

definition quoted :: "string \<Rightarrow> string" where
  "quoted s = [CHR 0x27] @ s @ [CHR 0x27]"

definition no_attribute :: "pyval \<Rightarrow> string \<Rightarrow> py_exception" where
  "no_attribute v a =
     PyException AttributeError (quoted (type_name v) @ '' object has no attribute '' @ quoted a)"

definition not_iterable :: "pyval \<Rightarrow> py_exception" where
  "not_iterable v = PyException TypeError (quoted (type_name v) @ '' object is not iterable'')"

text \<open>
  \<^verbatim>\<open>v.get(k, d)\<close>: a dictionary answers with the value of the key, or with the default;
  any other value has no attribute \<^verbatim>\<open>get\<close>.
\<close>

fun py_get :: "pyval \<Rightarrow> string \<Rightarrow> pyval \<Rightarrow> py_exception + pyval" where
  "py_get (PDict kvs) k d = Inr (case map_of kvs k of None \<Rightarrow> d | Some v \<Rightarrow> v)"
| "py_get v k d = Inl (no_attribute v ''get'')"

text \<open>Truth value of a Python value, as \<^verbatim>\<open>not v\<close> and \<^verbatim>\<open>if v\<close> test it.\<close>

fun truthy :: "pyval \<Rightarrow> bool" where
  "truthy PNone = False"
| "truthy (PBool b) = b"
| "truthy (PInt i) = (i \<noteq> 0)"
| "truthy (PStr s) = (s \<noteq> [])"
| "truthy (PList xs) = (xs \<noteq> [])"
| "truthy (PDict kvs) = (kvs \<noteq> [])"

text \<open>
  The elements a \<^verbatim>\<open>for\<close> loop visits: those of a list, the keys of a dictionary, the
  characters of a string; the other values are not iterable.
\<close>

fun py_iter :: "pyval \<Rightarrow> py_exception + pyval list" where
  "py_iter (PList xs) = Inr xs"
| "py_iter (PDict kvs) = Inr (map (\<lambda>kv. PStr (fst kv)) kvs)"
| "py_iter (PStr s) = Inr (map (\<lambda>c. PStr [c]) s)"
| "py_iter v = Inl (not_iterable v)"

section \<open>The HTTP library\<close>

text \<open>
  \<^verbatim>\<open>requests.request(method, url, auth, headers, json, timeout)\<close> is the only effect of
  the program. A request is the record of its arguments. The network answers a request
  either by an exception raised before any response exists (DNS, refused connection,
  timeout) or by a response with a status code, a reason phrase and a body, which is
  JSON text or not. The network also keeps the requests sent so far, in order.
\<close>

record http_request =
  req_method :: string
  req_url :: string
  req_auth :: "string \<times> string"
  req_headers :: "(string \<times> string) list"
  req_json :: "pyval option"
  req_timeout :: nat

datatype http_body = NotJson string | Json pyval

datatype http_outcome =
    Raises py_exception
  | Response nat string http_body

record network =
  respond :: "http_request \<Rightarrow> http_outcome"
  sent :: "http_request list"

definition requests_request :: "http_request \<Rightarrow> network \<Rightarrow> http_outcome \<times> network" where
  "requests_request req net = (respond net req, net\<lparr>sent := sent net @ [req]\<rparr>)"

definition digit :: "nat \<Rightarrow> char" where
  "digit d = ''0123456789'' ! d"

fun str_nat :: "nat \<Rightarrow> string" where
  "str_nat n = (if n < 10 then [digit n] else str_nat (n div 10) @ [digit (n mod 10)])"

declare str_nat.simps [simp del]

text \<open>
  \<^verbatim>\<open>Response.raise_for_status()\<close> of the library raises \<^verbatim>\<open>HTTPError\<close> for the status
  codes 400 to 599 and for no other. The text of the exception ends in the url of the
  response, which the library has prepared (percent-encoded) from the url passed in; the
  two are the same string when the endpoint has no character that needs encoding, and the
  model writes the url passed in. No property below depends on that text for a general
  endpoint.
\<close>

definition raise_for_status :: "string \<Rightarrow> nat \<Rightarrow> string \<Rightarrow> py_exception + unit" where
  "raise_for_status url code reason =
     (if 400 \<le> code \<and> code < 500 then
        Inl (PyException HTTPError (str_nat code @ '' Client Error: '' @ reason @ '' for url: '' @ url))
      else if 500 \<le> code \<and> code < 600 then
        Inl (PyException HTTPError (str_nat code @ '' Server Error: '' @ reason @ '' for url: '' @ url))
      else Inr ())"

text \<open>\<^verbatim>\<open>Response.json()\<close>: the parsed body, or \<^verbatim>\<open>JSONDecodeError\<close> with its text.\<close>

fun response_json :: "http_body \<Rightarrow> py_exception + pyval" where
  "response_json (Json v) = Inr v"
| "response_json (NotJson msg) = Inl (PyException JSONDecodeError msg)"

section \<open>fivetran_client.py\<close>

record FivetranClient =
  api_key :: string
  api_secret :: string
  auth :: "string \<times> string"

definition FivetranClient_init :: "string \<Rightarrow> string \<Rightarrow> FivetranClient" where
  "FivetranClient_init key secret = \<lparr>api_key = key, api_secret = secret, auth = (key, secret)\<rparr>"

definition BASE_URL :: string where
  "BASE_URL = ''https://api.fivetran.com/v1''"

text \<open>
  \<^verbatim>\<open>_make_request\<close>. Its \<^verbatim>\<open>except\<close> clause logs and re-raises, so an exception of the
  three calls in the \<^verbatim>\<open>try\<close> block leaves the method as it is. Log output is not part
  of the model.
\<close>

definition make_request ::
  "FivetranClient \<Rightarrow> string \<Rightarrow> string \<Rightarrow> pyval option \<Rightarrow> network \<Rightarrow> (py_exception + pyval) \<times> network" where
  "make_request self method endpoint data net =
     (let url = BASE_URL @ ''/'' @ endpoint;
          headers = [(''Content-Type'', ''application/json'')];
          (out, net') = requests_request
             \<lparr>req_method = method, req_url = url, req_auth = auth self,
              req_headers = headers, req_json = data, req_timeout = 30\<rparr> net
      in (try_except
            (case out of
               Raises e \<Rightarrow> Inl e
             | Response code reason body \<Rightarrow>
                 exc_bind (raise_for_status url code reason) (\<lambda>_. response_json body))
            (\<lambda>e. Inl e),
          net'))"

text \<open>\<^verbatim>\<open>response.get("data", {})\<close>, the last line of every single-entity method.\<close>

definition response_data :: "py_exception + pyval \<Rightarrow> py_exception + pyval" where
  "response_data r = exc_bind r (\<lambda>response. py_get response ''data'' (PDict []))"

text \<open>\<^verbatim>\<open>response.get("data", {}).get("items", [])\<close>, the last line of the list methods.\<close>

definition response_items :: "py_exception + pyval \<Rightarrow> py_exception + pyval" where
  "response_items r =
     exc_bind r (\<lambda>response.
       exc_bind (py_get response ''data'' (PDict [])) (\<lambda>d. py_get d ''items'' (PList [])))"

definition FivetranClient_list_connectors ::
  "FivetranClient \<Rightarrow> string option \<Rightarrow> network \<Rightarrow> (py_exception + pyval) \<times> network" where
  "FivetranClient_list_connectors self group_id net =
     (let endpoint =
            (case group_id of
               Some g \<Rightarrow> if g \<noteq> [] then ''groups/'' @ g @ ''/connectors'' else ''connectors''
             | None \<Rightarrow> ''connectors'');
          (response, net') = make_request self ''GET'' endpoint None net
      in (response_items response, net'))"

definition FivetranClient_get_connector ::
  "FivetranClient \<Rightarrow> string \<Rightarrow> network \<Rightarrow> (py_exception + pyval) \<times> network" where
  "FivetranClient_get_connector self connector_id net =
     (let (response, net') = make_request self ''GET'' (''connectors/'' @ connector_id) None net
      in (response_data response, net'))"

definition FivetranClient_activate_connector ::
  "FivetranClient \<Rightarrow> string \<Rightarrow> network \<Rightarrow> (py_exception + pyval) \<times> network" where
  "FivetranClient_activate_connector self connector_id net =
     (let data = PDict [(''paused'', PBool False)];
          (response, net') = make_request self ''PATCH'' (''connectors/'' @ connector_id) (Some data) net
      in (response_data response, net'))"

definition FivetranClient_pause_connector ::
  "FivetranClient \<Rightarrow> string \<Rightarrow> network \<Rightarrow> (py_exception + pyval) \<times> network" where
  "FivetranClient_pause_connector self connector_id net =
     (let data = PDict [(''paused'', PBool True)];
          (response, net') = make_request self ''PATCH'' (''connectors/'' @ connector_id) (Some data) net
      in (response_data response, net'))"

definition FivetranClient_sync_connector ::
  "FivetranClient \<Rightarrow> string \<Rightarrow> bool \<Rightarrow> network \<Rightarrow> (py_exception + pyval) \<times> network" where
  "FivetranClient_sync_connector self connector_id force net =
     (let endpoint = ''connectors/'' @ connector_id @ ''/'' @ (if force then ''force'' else ''sync'');
          (response, net') = make_request self ''POST'' endpoint None net
      in (response_data response, net'))"

definition FivetranClient_resync_table ::
  "FivetranClient \<Rightarrow> string \<Rightarrow> string \<Rightarrow> string \<Rightarrow> network \<Rightarrow> (py_exception + pyval) \<times> network" where
  "FivetranClient_resync_table self connector_id schema table net =
     (let endpoint = ''connectors/'' @ connector_id @ ''/schemas/'' @ schema @ ''/tables/'' @ table @ ''/resync'';
          (response, net') = make_request self ''POST'' endpoint None net
      in (response_data response, net'))"

definition FivetranClient_get_connector_schemas ::
  "FivetranClient \<Rightarrow> string \<Rightarrow> network \<Rightarrow> (py_exception + pyval) \<times> network" where
  "FivetranClient_get_connector_schemas self connector_id net =
     (let (response, net') = make_request self ''GET'' (''connectors/'' @ connector_id @ ''/schemas'') None net
      in (response_data response, net'))"

definition FivetranClient_update_connector_schema ::
  "FivetranClient \<Rightarrow> string \<Rightarrow> string \<Rightarrow> string \<Rightarrow> bool \<Rightarrow> network \<Rightarrow> (py_exception + pyval) \<times> network" where
  "FivetranClient_update_connector_schema self connector_id schema table enabled net =
     (let endpoint = ''connectors/'' @ connector_id @ ''/schemas/'' @ schema @ ''/tables/'' @ table;
          data = PDict [(''enabled'', PBool enabled)];
          (response, net') = make_request self ''PATCH'' endpoint (Some data) net
      in (response_data response, net'))"

definition FivetranClient_list_groups ::
  "FivetranClient \<Rightarrow> network \<Rightarrow> (py_exception + pyval) \<times> network" where
  "FivetranClient_list_groups self net =
     (let (response, net') = make_request self ''GET'' ''groups'' None net
      in (response_items response, net'))"

definition FivetranClient_get_group ::
  "FivetranClient \<Rightarrow> string \<Rightarrow> network \<Rightarrow> (py_exception + pyval) \<times> network" where
  "FivetranClient_get_group self group_id net =
     (let (response, net') = make_request self ''GET'' (''groups/'' @ group_id) None net
      in (response_data response, net'))"

definition FivetranClient_test_connection ::
  "FivetranClient \<Rightarrow> string \<Rightarrow> network \<Rightarrow> (py_exception + pyval) \<times> network" where
  "FivetranClient_test_connection self connector_id net =
     (let (response, net') = make_request self ''POST'' (''connectors/'' @ connector_id @ ''/test'') None net
      in (response_data response, net'))"

section \<open>api.py\<close>

record FivetranAPI =
  client :: FivetranClient

definition FivetranAPI_init :: "string \<Rightarrow> string \<Rightarrow> FivetranAPI" where
  "FivetranAPI_init key secret = \<lparr>client = FivetranClient_init key secret\<rparr>"

text \<open>
  The dictionary \<^verbatim>\<open>get_all_connectors\<close> appends for one connector. The entries are
  evaluated in the order of the source, so the first \<^verbatim>\<open>.get\<close> on something that is not
  a dictionary decides which exception leaves the loop.
\<close>

definition connector_summary :: "pyval \<Rightarrow> py_exception + pyval" where
  "connector_summary connector =
     exc_bind (py_get connector ''id'' PNone) (\<lambda>v_id.
     exc_bind (py_get connector ''schema'' PNone) (\<lambda>v_name.
     exc_bind (py_get connector ''service'' PNone) (\<lambda>v_service.
     exc_bind (py_get connector ''paused'' PNone) (\<lambda>p.
     exc_bind (py_get connector ''status'' (PDict [])) (\<lambda>st1.
     exc_bind (py_get st1 ''sync_state'' PNone) (\<lambda>v_sync_state.
     exc_bind (py_get connector ''status'' (PDict [])) (\<lambda>st2.
     exc_bind (py_get st2 ''setup_state'' PNone) (\<lambda>v_setup_state.
     exc_bind (py_get connector ''succeeded_at'' PNone) (\<lambda>v_last_sync.
     exc_bind (py_get connector ''failed_at'' PNone) (\<lambda>v_failed_at.
     exc_bind (py_get connector ''paused'' (PBool False)) (\<lambda>v_paused.
     exc_bind (py_get connector ''group_id'' PNone) (\<lambda>v_group_id.
       Inr (PDict
         [(''id'', v_id),
          (''name'', v_name),
          (''service'', v_service),
          (''status'', if \<not> truthy p then PStr ''Active'' else PStr ''Paused''),
          (''sync_state'', v_sync_state),
          (''setup_state'', v_setup_state),
          (''last_sync'', v_last_sync),
          (''failed_at'', v_failed_at),
          (''paused'', v_paused),
          (''group_id'', v_group_id)])))))))))))))"

text \<open>The \<^verbatim>\<open>for\<close> loop of \<^verbatim>\<open>get_all_connectors\<close>, with the list \<^verbatim>\<open>formatted\<close> built so far.\<close>

fun connectors_loop :: "pyval list \<Rightarrow> pyval list \<Rightarrow> py_exception + pyval list" where
  "connectors_loop [] formatted = Inr formatted"
| "connectors_loop (connector # rest) formatted =
     exc_bind (connector_summary connector) (\<lambda>d. connectors_loop rest (formatted @ [d]))"

definition FivetranAPI_get_all_connectors ::
  "FivetranAPI \<Rightarrow> string option \<Rightarrow> network \<Rightarrow> (py_exception + pyval list) \<times> network" where
  "FivetranAPI_get_all_connectors self group_id net =
     (let (connectors, net') = FivetranClient_list_connectors (client self) group_id net
      in (try_except
            (exc_bind connectors (\<lambda>cs.
             exc_bind (py_iter cs) (\<lambda>items. connectors_loop items [])))
            (\<lambda>e. Inl e),
          net'))"

text \<open>The dictionary \<^verbatim>\<open>get_connector_details\<close> returns for the connector it fetched.\<close>

definition connector_detail :: "pyval \<Rightarrow> py_exception + pyval" where
  "connector_detail connector =
     exc_bind (py_get connector ''id'' PNone) (\<lambda>v_id.
     exc_bind (py_get connector ''schema'' PNone) (\<lambda>v_name.
     exc_bind (py_get connector ''service'' PNone) (\<lambda>v_service.
     exc_bind (py_get connector ''paused'' PNone) (\<lambda>v_paused.
     exc_bind (py_get connector ''sync_frequency'' PNone) (\<lambda>v_sync_frequency.
     exc_bind (py_get connector ''daily_sync_time'' PNone) (\<lambda>v_daily_sync_time.
     exc_bind (py_get connector ''schedule_type'' PNone) (\<lambda>v_schedule_type.
     exc_bind (py_get connector ''status'' PNone) (\<lambda>v_status.
     exc_bind (py_get connector ''status'' (PDict [])) (\<lambda>st1.
     exc_bind (py_get st1 ''setup_state'' PNone) (\<lambda>v_setup_state.
     exc_bind (py_get connector ''status'' (PDict [])) (\<lambda>st2.
     exc_bind (py_get st2 ''sync_state'' PNone) (\<lambda>v_sync_state.
     exc_bind (py_get connector ''status'' (PDict [])) (\<lambda>st3.
     exc_bind (py_get st3 ''update_state'' PNone) (\<lambda>v_update_state.
     exc_bind (py_get connector ''succeeded_at'' PNone) (\<lambda>v_succeeded_at.
     exc_bind (py_get connector ''failed_at'' PNone) (\<lambda>v_failed_at.
     exc_bind (py_get connector ''config'' PNone) (\<lambda>v_config.
     exc_bind (py_get connector ''group_id'' PNone) (\<lambda>v_group_id.
       Inr (PDict
         [(''id'', v_id),
          (''name'', v_name),
          (''service'', v_service),
          (''paused'', v_paused),
          (''sync_frequency'', v_sync_frequency),
          (''daily_sync_time'', v_daily_sync_time),
          (''schedule_type'', v_schedule_type),
          (''status'', v_status),
          (''setup_state'', v_setup_state),
          (''sync_state'', v_sync_state),
          (''update_state'', v_update_state),
          (''succeeded_at'', v_succeeded_at),
          (''failed_at'', v_failed_at),
          (''config'', v_config),
          (''group_id'', v_group_id)])))))))))))))))))))"

definition FivetranAPI_get_connector_details ::
  "FivetranAPI \<Rightarrow> string \<Rightarrow> network \<Rightarrow> (py_exception + pyval) \<times> network" where
  "FivetranAPI_get_connector_details self connector_id net =
     (let (connector, net') = FivetranClient_get_connector (client self) connector_id net
      in (try_except (exc_bind connector connector_detail) (\<lambda>e. Inl e), net'))"

text \<open>The dictionary every wrapping method returns from its \<^verbatim>\<open>except\<close> clause.\<close>

definition failure :: "py_exception \<Rightarrow> py_exception + pyval" where
  "failure e = Inr (PDict [(''success'', PBool False), (''message'', PStr (exc_str e))])"

definition FivetranAPI_activate_connector ::
  "FivetranAPI \<Rightarrow> string \<Rightarrow> network \<Rightarrow> (py_exception + pyval) \<times> network" where
  "FivetranAPI_activate_connector self connector_id net =
     (let (result, net') = FivetranClient_activate_connector (client self) connector_id net
      in (try_except
            (exc_bind result (\<lambda>res.
               Inr (PDict [(''success'', PBool True), (''message'', PStr ''Connector activated''),
                           (''data'', res)])))
            failure,
          net'))"

definition FivetranAPI_pause_connector ::
  "FivetranAPI \<Rightarrow> string \<Rightarrow> network \<Rightarrow> (py_exception + pyval) \<times> network" where
  "FivetranAPI_pause_connector self connector_id net =
     (let (result, net') = FivetranClient_pause_connector (client self) connector_id net
      in (try_except
            (exc_bind result (\<lambda>res.
               Inr (PDict [(''success'', PBool True), (''message'', PStr ''Connector paused''),
                           (''data'', res)])))
            failure,
          net'))"

definition FivetranAPI_sync_connector ::
  "FivetranAPI \<Rightarrow> string \<Rightarrow> bool \<Rightarrow> network \<Rightarrow> (py_exception + pyval) \<times> network" where
  "FivetranAPI_sync_connector self connector_id force net =
     (let (result, net') = FivetranClient_sync_connector (client self) connector_id force net
      in (try_except
            (exc_bind result (\<lambda>res.
               let sync_type = (if force then ''force sync'' else ''sync'')
               in Inr (PDict [(''success'', PBool True),
                              (''message'', PStr (''Connector '' @ sync_type @ '' triggered'')),
                              (''data'', res)])))
            failure,
          net'))"

definition FivetranAPI_get_connector_schemas ::
  "FivetranAPI \<Rightarrow> string \<Rightarrow> network \<Rightarrow> (py_exception + pyval) \<times> network" where
  "FivetranAPI_get_connector_schemas self connector_id net =
     (let (schemas, net') = FivetranClient_get_connector_schemas (client self) connector_id net
      in (try_except
            (exc_bind schemas (\<lambda>res.
               Inr (PDict [(''success'', PBool True), (''data'', res)])))
            failure,
          net'))"

definition FivetranAPI_resync_table ::
  "FivetranAPI \<Rightarrow> string \<Rightarrow> string \<Rightarrow> string \<Rightarrow> network \<Rightarrow> (py_exception + pyval) \<times> network" where
  "FivetranAPI_resync_table self connector_id schema table net =
     (let (result, net') = FivetranClient_resync_table (client self) connector_id schema table net
      in (try_except
            (exc_bind result (\<lambda>res.
               Inr (PDict [(''success'', PBool True),
                           (''message'', PStr (''Table '' @ schema @ ''.'' @ table @ '' resync triggered'')),
                           (''data'', res)])))
            failure,
          net'))"

definition FivetranAPI_toggle_table ::
  "FivetranAPI \<Rightarrow> string \<Rightarrow> string \<Rightarrow> string \<Rightarrow> bool \<Rightarrow> network \<Rightarrow> (py_exception + pyval) \<times> network" where
  "FivetranAPI_toggle_table self connector_id schema table enabled net =
     (let (result, net') =
            FivetranClient_update_connector_schema (client self) connector_id schema table enabled net
      in (try_except
            (exc_bind result (\<lambda>res.
               let status = (if enabled then ''enabled'' else ''disabled'')
               in Inr (PDict [(''success'', PBool True),
                              (''message'', PStr (''Table '' @ schema @ ''.'' @ table @ '' '' @ status)),
                              (''data'', res)])))
            failure,
          net'))"

text \<open>The dictionary \<^verbatim>\<open>get_all_groups\<close> appends for one group, and its loop.\<close>

definition group_summary :: "pyval \<Rightarrow> py_exception + pyval" where
  "group_summary grp =
     exc_bind (py_get grp ''id'' PNone) (\<lambda>v_id.
     exc_bind (py_get grp ''name'' PNone) (\<lambda>v_name.
     exc_bind (py_get grp ''created_at'' PNone) (\<lambda>v_created_at.
       Inr (PDict [(''id'', v_id), (''name'', v_name), (''created_at'', v_created_at)]))))"

fun groups_loop :: "pyval list \<Rightarrow> pyval list \<Rightarrow> py_exception + pyval list" where
  "groups_loop [] formatted = Inr formatted"
| "groups_loop (grp # rest) formatted =
     exc_bind (group_summary grp) (\<lambda>d. groups_loop rest (formatted @ [d]))"

definition FivetranAPI_get_all_groups ::
  "FivetranAPI \<Rightarrow> network \<Rightarrow> (py_exception + pyval list) \<times> network" where
  "FivetranAPI_get_all_groups self net =
     (let (groups, net') = FivetranClient_list_groups (client self) net
      in (try_except
            (exc_bind groups (\<lambda>gs.
             exc_bind (py_iter gs) (\<lambda>items. groups_loop items [])))
            (\<lambda>e. Inl e),
          net'))"

definition FivetranAPI_test_connection ::
  "FivetranAPI \<Rightarrow> string \<Rightarrow> network \<Rightarrow> (py_exception + pyval) \<times> network" where
  "FivetranAPI_test_connection self connector_id net =
     (let (result, net') = FivetranClient_test_connection (client self) connector_id net
      in (try_except
            (exc_bind result (\<lambda>res.
               Inr (PDict [(''success'', PBool True), (''message'', PStr ''Connection test completed''),
                           (''data'', res)])))
            failure,
          net'))"

section \<open>Example inputs\<close>

text \<open>
  A service object with fixed credentials, a network that gives every request the same
  outcome, and a refused connection.
\<close>

definition api0 :: FivetranAPI where
  "api0 = FivetranAPI_init ''key'' ''secret''"

definition answering :: "http_outcome \<Rightarrow> network" where
  "answering out = \<lparr>respond = (\<lambda>req. out), sent = []\<rparr>"

definition refused :: py_exception where
  "refused = PyException ConnectionError ''Connection refused''"

text \<open>Two answers of the remote service: an envelope with status 200, and a status 404.\<close>

definition envelope_ok :: http_outcome where
  "envelope_ok = Response 200 ''OK'' (Json (PDict [(''code'', PStr ''Success''), (''data'', PDict [(''id'', PStr ''c1'')])]))"

definition not_found :: http_outcome where
  "not_found = Response 404 ''Not Found'' (Json (PDict [(''code'', PStr ''NotFound'')]))"

text \<open>The shape the specification calls Operation Result: a dictionary with a boolean
  \<^verbatim>\<open>success\<close>, a string \<^verbatim>\<open>message\<close>, and no key other than these two and \<^verbatim>\<open>data\<close>.\<close>

fun operation_result_shape :: "pyval \<Rightarrow> bool" where
  "operation_result_shape (PDict kvs) =
     ((case map_of kvs ''success'' of Some (PBool b) \<Rightarrow> True | _ \<Rightarrow> False)
      \<and> (case map_of kvs ''message'' of Some (PStr m) \<Rightarrow> True | _ \<Rightarrow> False)
      \<and> set (map fst kvs) \<subseteq> {''success'', ''message'', ''data''})"
| "operation_result_shape v = False"

text \<open>A connector payload with the flag set and a nested status object; the answer of the
  list endpoint that holds it; the answer of the detail endpoint that holds it.\<close>

definition paused_payload :: pyval where
  "paused_payload =
     PDict [(''id'', PStr ''c1''), (''paused'', PBool True),
            (''status'', PDict [(''sync_state'', PStr ''paused'')])]"

definition listing :: "pyval list \<Rightarrow> http_outcome" where
  "listing items = Response 200 ''OK'' (Json (PDict [(''data'', PDict [(''items'', PList items)])]))"

definition single :: "pyval \<Rightarrow> http_outcome" where
  "single v = Response 200 ''OK'' (Json (PDict [(''data'', v)]))"

section \<open>Properties\<close>

subsection \<open>Auxiliary facts about the transport call, the handlers and the client methods\<close>

lemma make_request_sent:
  "sent (snd (make_request self method endpoint data net)) =
     sent net @ [\<lparr>req_method = method, req_url = BASE_URL @ ''/'' @ endpoint, req_auth = auth self,
                  req_headers = [(''Content-Type'', ''application/json'')], req_json = data,
                  req_timeout = 30\<rparr>]"
  by (simp add: make_request_def requests_request_def Let_def)

lemma make_request_fst:
  "fst (make_request self method endpoint data net) =
     (case respond net \<lparr>req_method = method, req_url = BASE_URL @ ''/'' @ endpoint, req_auth = auth self,
                  req_headers = [(''Content-Type'', ''application/json'')], req_json = data,
                  req_timeout = 30\<rparr> of
        Raises e \<Rightarrow> Inl e
      | Response code reason body \<Rightarrow>
          exc_bind (raise_for_status (BASE_URL @ ''/'' @ endpoint) code reason) (\<lambda>_. response_json body))"
  by (simp add: make_request_def requests_request_def Let_def try_except_def split: http_outcome.splits sum.splits)

lemma try_except_failure_returns:
  "\<exists>res. try_except r failure = Inr res"
  by (cases r) (simp_all add: try_except_def failure_def)

lemma try_except_failure_Inl:
  "r = Inl e \<Longrightarrow>
   try_except (exc_bind r f) failure = Inr (PDict [(''success'', PBool False), (''message'', PStr (exc_str e))])"
  by (simp add: try_except_def exc_bind_def failure_def)

lemma try_except_reraise:
  "try_except r (\<lambda>e. Inl e) = r"
  by (cases r) (simp_all add: try_except_def)

lemmas client_defs =
  FivetranClient_activate_connector_def FivetranClient_pause_connector_def
  FivetranClient_sync_connector_def FivetranClient_get_connector_schemas_def
  FivetranClient_resync_table_def FivetranClient_update_connector_schema_def
  FivetranClient_test_connection_def FivetranClient_list_connectors_def
  FivetranClient_get_connector_def FivetranClient_list_groups_def FivetranClient_get_group_def

lemma refused_client:
  "fst (FivetranClient_activate_connector c cid (answering (Raises e))) = Inl e"
  "fst (FivetranClient_pause_connector c cid (answering (Raises e))) = Inl e"
  "fst (FivetranClient_sync_connector c cid force (answering (Raises e))) = Inl e"
  "fst (FivetranClient_get_connector_schemas c cid (answering (Raises e))) = Inl e"
  "fst (FivetranClient_resync_table c cid schema table (answering (Raises e))) = Inl e"
  "fst (FivetranClient_update_connector_schema c cid schema table enabled (answering (Raises e))) = Inl e"
  "fst (FivetranClient_test_connection c cid (answering (Raises e))) = Inl e"
  "fst (FivetranClient_list_connectors c gid (answering (Raises e))) = Inl e"
  "fst (FivetranClient_get_connector c cid (answering (Raises e))) = Inl e"
  "fst (FivetranClient_list_groups c (answering (Raises e))) = Inl e"
  by (simp_all add: client_defs split_beta Let_def make_request_fst answering_def
        response_data_def response_items_def exc_bind_def)

lemma client_sent:
  "sent (snd (FivetranClient_sync_connector c cid force net)) =
     sent net @ [\<lparr>req_method = ''POST'',
                  req_url = BASE_URL @ ''/'' @ ''connectors/'' @ cid @ ''/'' @ (if force then ''force'' else ''sync''),
                  req_auth = auth c, req_headers = [(''Content-Type'', ''application/json'')],
                  req_json = None, req_timeout = 30\<rparr>]"
  "sent (snd (FivetranClient_update_connector_schema c cid schema table enabled net)) =
     sent net @ [\<lparr>req_method = ''PATCH'',
                  req_url = BASE_URL @ ''/'' @ ''connectors/'' @ cid @ ''/schemas/'' @ schema @ ''/tables/'' @ table,
                  req_auth = auth c, req_headers = [(''Content-Type'', ''application/json'')],
                  req_json = Some (PDict [(''enabled'', PBool enabled)]), req_timeout = 30\<rparr>]"
  by (simp_all add: client_defs split_beta Let_def make_request_sent)

lemma envelope_ok_client:
  "fst (FivetranClient_sync_connector c cid force (answering envelope_ok)) = Inr (PDict [(''id'', PStr ''c1'')])"
  "fst (FivetranClient_update_connector_schema c cid schema table enabled (answering envelope_ok)) = Inr (PDict [(''id'', PStr ''c1'')])"
  "fst (FivetranClient_get_connector_schemas c cid (answering envelope_ok)) = Inr (PDict [(''id'', PStr ''c1'')])"
  by (simp_all add: client_defs split_beta Let_def make_request_fst answering_def envelope_ok_def
        response_data_def exc_bind_def raise_for_status_def)

lemma str_nat_404: "str_nat 404 = ''404''"
  by (simp add: str_nat.simps digit_def)

lemma list_client_fst:
  "fst (FivetranClient_list_groups c net) = response_items (fst (make_request c ''GET'' ''groups'' None net))"
  "fst (FivetranClient_list_connectors c gid net) =
     response_items (fst (make_request c ''GET''
        (case gid of Some g \<Rightarrow> if g \<noteq> [] then ''groups/'' @ g @ ''/connectors'' else ''connectors''
         | None \<Rightarrow> ''connectors'') None net))"
  by (simp_all add: client_defs split_beta Let_def)

lemma response_items_lacking:
  assumes "map_of env ''data'' = None \<or> (\<exists>d. map_of env ''data'' = Some (PDict d) \<and> map_of d ''items'' = None)"
  shows "response_items (Inr (PDict env)) = Inr (PList [])"
  using assms by (auto simp: response_items_def exc_bind_def)

subsection \<open>Failures of the wrapped operations\<close>

text \<open>
  C1: each of the seven wrapped operations of the Domain Service (activate, pause, sync,
  getSchemas, resyncTable, toggleTable, testConnection) returns a value on every network
  and never raises; and when the client call beneath it raises an exception \<open>e\<close>, the
  value returned is the dictionary with \<^verbatim>\<open>success\<close> false and \<^verbatim>\<open>message\<close> equal to
  \<^verbatim>\<open>str(e)\<close>.
\<close>

theorem wrapped_operations_never_raise:
  "(\<exists>res. fst (FivetranAPI_activate_connector api cid net) = Inr res)
   \<and> (fst (FivetranClient_activate_connector (client api) cid net) = Inl e \<longrightarrow>
        fst (FivetranAPI_activate_connector api cid net) =
          Inr (PDict [(''success'', PBool False), (''message'', PStr (exc_str e))]))
   \<and> (\<exists>res. fst (FivetranAPI_pause_connector api cid net) = Inr res)
   \<and> (fst (FivetranClient_pause_connector (client api) cid net) = Inl e \<longrightarrow>
        fst (FivetranAPI_pause_connector api cid net) =
          Inr (PDict [(''success'', PBool False), (''message'', PStr (exc_str e))]))
   \<and> (\<exists>res. fst (FivetranAPI_sync_connector api cid force net) = Inr res)
   \<and> (fst (FivetranClient_sync_connector (client api) cid force net) = Inl e \<longrightarrow>
        fst (FivetranAPI_sync_connector api cid force net) =
          Inr (PDict [(''success'', PBool False), (''message'', PStr (exc_str e))]))
   \<and> (\<exists>res. fst (FivetranAPI_get_connector_schemas api cid net) = Inr res)
   \<and> (fst (FivetranClient_get_connector_schemas (client api) cid net) = Inl e \<longrightarrow>
        fst (FivetranAPI_get_connector_schemas api cid net) =
          Inr (PDict [(''success'', PBool False), (''message'', PStr (exc_str e))]))
   \<and> (\<exists>res. fst (FivetranAPI_resync_table api cid schema table net) = Inr res)
   \<and> (fst (FivetranClient_resync_table (client api) cid schema table net) = Inl e \<longrightarrow>
        fst (FivetranAPI_resync_table api cid schema table net) =
          Inr (PDict [(''success'', PBool False), (''message'', PStr (exc_str e))]))
   \<and> (\<exists>res. fst (FivetranAPI_toggle_table api cid schema table enabled net) = Inr res)
   \<and> (fst (FivetranClient_update_connector_schema (client api) cid schema table enabled net) = Inl e \<longrightarrow>
        fst (FivetranAPI_toggle_table api cid schema table enabled net) =
          Inr (PDict [(''success'', PBool False), (''message'', PStr (exc_str e))]))
   \<and> (\<exists>res. fst (FivetranAPI_test_connection api cid net) = Inr res)
   \<and> (fst (FivetranClient_test_connection (client api) cid net) = Inl e \<longrightarrow>
        fst (FivetranAPI_test_connection api cid net) =
          Inr (PDict [(''success'', PBool False), (''message'', PStr (exc_str e))]))"
proof -
  have a: "\<exists>res. fst (FivetranAPI_activate_connector api cid net) = Inr res"
    by (simp add: FivetranAPI_activate_connector_def split_beta try_except_failure_returns)
  have a': "fst (FivetranClient_activate_connector (client api) cid net) = Inl e \<longrightarrow>
        fst (FivetranAPI_activate_connector api cid net) =
          Inr (PDict [(''success'', PBool False), (''message'', PStr (exc_str e))])"
    by (simp add: FivetranAPI_activate_connector_def split_beta try_except_failure_Inl)
  have p: "\<exists>res. fst (FivetranAPI_pause_connector api cid net) = Inr res"
    by (simp add: FivetranAPI_pause_connector_def split_beta try_except_failure_returns)
  have p': "fst (FivetranClient_pause_connector (client api) cid net) = Inl e \<longrightarrow>
        fst (FivetranAPI_pause_connector api cid net) =
          Inr (PDict [(''success'', PBool False), (''message'', PStr (exc_str e))])"
    by (simp add: FivetranAPI_pause_connector_def split_beta try_except_failure_Inl)
  have s: "\<exists>res. fst (FivetranAPI_sync_connector api cid force net) = Inr res"
    by (simp add: FivetranAPI_sync_connector_def split_beta try_except_failure_returns)
  have s': "fst (FivetranClient_sync_connector (client api) cid force net) = Inl e \<longrightarrow>
        fst (FivetranAPI_sync_connector api cid force net) =
          Inr (PDict [(''success'', PBool False), (''message'', PStr (exc_str e))])"
    by (simp add: FivetranAPI_sync_connector_def split_beta try_except_failure_Inl)
  have g: "\<exists>res. fst (FivetranAPI_get_connector_schemas api cid net) = Inr res"
    by (simp add: FivetranAPI_get_connector_schemas_def split_beta try_except_failure_returns)
  have g': "fst (FivetranClient_get_connector_schemas (client api) cid net) = Inl e \<longrightarrow>
        fst (FivetranAPI_get_connector_schemas api cid net) =
          Inr (PDict [(''success'', PBool False), (''message'', PStr (exc_str e))])"
    by (simp add: FivetranAPI_get_connector_schemas_def split_beta try_except_failure_Inl)
  have r: "\<exists>res. fst (FivetranAPI_resync_table api cid schema table net) = Inr res"
    by (simp add: FivetranAPI_resync_table_def split_beta try_except_failure_returns)
  have r': "fst (FivetranClient_resync_table (client api) cid schema table net) = Inl e \<longrightarrow>
        fst (FivetranAPI_resync_table api cid schema table net) =
          Inr (PDict [(''success'', PBool False), (''message'', PStr (exc_str e))])"
    by (simp add: FivetranAPI_resync_table_def split_beta try_except_failure_Inl)
  have t: "\<exists>res. fst (FivetranAPI_toggle_table api cid schema table enabled net) = Inr res"
    by (simp add: FivetranAPI_toggle_table_def split_beta try_except_failure_returns)
  have t': "fst (FivetranClient_update_connector_schema (client api) cid schema table enabled net) = Inl e \<longrightarrow>
        fst (FivetranAPI_toggle_table api cid schema table enabled net) =
          Inr (PDict [(''success'', PBool False), (''message'', PStr (exc_str e))])"
    by (simp add: FivetranAPI_toggle_table_def split_beta try_except_failure_Inl)
  have c: "\<exists>res. fst (FivetranAPI_test_connection api cid net) = Inr res"
    by (simp add: FivetranAPI_test_connection_def split_beta try_except_failure_returns)
  have c': "fst (FivetranClient_test_connection (client api) cid net) = Inl e \<longrightarrow>
        fst (FivetranAPI_test_connection api cid net) =
          Inr (PDict [(''success'', PBool False), (''message'', PStr (exc_str e))])"
    by (simp add: FivetranAPI_test_connection_def split_beta try_except_failure_Inl)
  from a a' p p' s s' g g' r r' t t' c c' show ?thesis by blast
qed

theorem wrapped_operations_never_raise_witness:
  "fst (FivetranClient_activate_connector (client api0) ''c1'' (answering (Raises refused))) = Inl refused
   \<and> fst (FivetranAPI_activate_connector api0 ''c1'' (answering (Raises refused))) =
       Inr (PDict [(''success'', PBool False), (''message'', PStr ''Connection refused'')])
   \<and> fst (FivetranClient_pause_connector (client api0) ''c1'' (answering (Raises refused))) = Inl refused
   \<and> fst (FivetranAPI_pause_connector api0 ''c1'' (answering (Raises refused))) =
       Inr (PDict [(''success'', PBool False), (''message'', PStr ''Connection refused'')])
   \<and> fst (FivetranClient_sync_connector (client api0) ''c1'' True (answering (Raises refused))) = Inl refused
   \<and> fst (FivetranAPI_sync_connector api0 ''c1'' True (answering (Raises refused))) =
       Inr (PDict [(''success'', PBool False), (''message'', PStr ''Connection refused'')])
   \<and> fst (FivetranClient_get_connector_schemas (client api0) ''c1'' (answering (Raises refused))) = Inl refused
   \<and> fst (FivetranAPI_get_connector_schemas api0 ''c1'' (answering (Raises refused))) =
       Inr (PDict [(''success'', PBool False), (''message'', PStr ''Connection refused'')])
   \<and> fst (FivetranClient_resync_table (client api0) ''c1'' ''public'' ''orders'' (answering (Raises refused))) = Inl refused
   \<and> fst (FivetranAPI_resync_table api0 ''c1'' ''public'' ''orders'' (answering (Raises refused))) =
       Inr (PDict [(''success'', PBool False), (''message'', PStr ''Connection refused'')])
   \<and> fst (FivetranClient_update_connector_schema (client api0) ''c1'' ''public'' ''orders'' True (answering (Raises refused))) = Inl refused
   \<and> fst (FivetranAPI_toggle_table api0 ''c1'' ''public'' ''orders'' True (answering (Raises refused))) =
       Inr (PDict [(''success'', PBool False), (''message'', PStr ''Connection refused'')])
   \<and> fst (FivetranClient_test_connection (client api0) ''c1'' (answering (Raises refused))) = Inl refused
   \<and> fst (FivetranAPI_test_connection api0 ''c1'' (answering (Raises refused))) =
       Inr (PDict [(''success'', PBool False), (''message'', PStr ''Connection refused'')])"
  using wrapped_operations_never_raise [of api0 "''c1''" "answering (Raises refused)" refused True
          "''public''" "''orders''" True]
  by (simp add: refused_client) (simp add: refused_def)

subsection \<open>Failures of the read operations\<close>

text \<open>
  C2: when the client call beneath \<^verbatim>\<open>get_all_groups\<close>, \<^verbatim>\<open>get_all_connectors\<close> or
  \<^verbatim>\<open>get_connector_details\<close> raises an exception \<open>e\<close>, the operation raises the same
  \<open>e\<close>: it returns no wrapped and no partial result. The operation adds no request of
  its own to the one the client call sent.
\<close>

theorem read_operations_reraise:
  "(fst (FivetranClient_list_groups (client api) net) = Inl e \<longrightarrow>
      fst (FivetranAPI_get_all_groups api net) = Inl e)
   \<and> snd (FivetranAPI_get_all_groups api net) = snd (FivetranClient_list_groups (client api) net)
   \<and> (fst (FivetranClient_list_connectors (client api) gid net) = Inl e \<longrightarrow>
      fst (FivetranAPI_get_all_connectors api gid net) = Inl e)
   \<and> snd (FivetranAPI_get_all_connectors api gid net) =
       snd (FivetranClient_list_connectors (client api) gid net)
   \<and> (fst (FivetranClient_get_connector (client api) cid net) = Inl e \<longrightarrow>
      fst (FivetranAPI_get_connector_details api cid net) = Inl e)
   \<and> snd (FivetranAPI_get_connector_details api cid net) =
       snd (FivetranClient_get_connector (client api) cid net)"
  by (simp add: FivetranAPI_get_all_groups_def FivetranAPI_get_all_connectors_def
        FivetranAPI_get_connector_details_def split_beta try_except_reraise exc_bind_def)

theorem read_operations_reraise_witness:
  "fst (FivetranClient_list_groups (client api0) (answering (Raises refused))) = Inl refused
   \<and> fst (FivetranAPI_get_all_groups api0 (answering (Raises refused))) = Inl refused
   \<and> fst (FivetranClient_list_connectors (client api0) None (answering (Raises refused))) = Inl refused
   \<and> fst (FivetranAPI_get_all_connectors api0 None (answering (Raises refused))) = Inl refused
   \<and> fst (FivetranClient_get_connector (client api0) ''c1'' (answering (Raises refused))) = Inl refused
   \<and> fst (FivetranAPI_get_connector_details api0 ''c1'' (answering (Raises refused))) = Inl refused"
  using read_operations_reraise [of api0 "answering (Raises refused)" refused None "''c1''"]
  by (simp add: refused_client)

subsection \<open>The empty group id\<close>

text \<open>
  C10: \<^verbatim>\<open>list_connectors("")\<close> does what \<^verbatim>\<open>list_connectors(None)\<close> does, and so does
  \<^verbatim>\<open>get_all_connectors\<close>: the one request sent is \<^verbatim>\<open>GET connectors\<close>. The path
  \<^verbatim>\<open>groups/{id}/connectors\<close> is the target only of a non-empty group id.
\<close>

theorem list_connectors_empty_group_id:
  "FivetranClient_list_connectors c (Some '''') net = FivetranClient_list_connectors c None net
   \<and> FivetranAPI_get_all_connectors api (Some '''') net = FivetranAPI_get_all_connectors api None net
   \<and> sent (snd (FivetranAPI_get_all_connectors api (Some '''') net)) =
       sent net @ [\<lparr>req_method = ''GET'', req_url = ''https://api.fivetran.com/v1/connectors'',
                    req_auth = auth (client api),
                    req_headers = [(''Content-Type'', ''application/json'')], req_json = None,
                    req_timeout = 30\<rparr>]
   \<and> (g \<noteq> '''' \<longrightarrow>
       sent (snd (FivetranAPI_get_all_connectors api (Some g) net)) =
         sent net @ [\<lparr>req_method = ''GET'',
                      req_url = ''https://api.fivetran.com/v1/groups/'' @ g @ ''/connectors'',
                      req_auth = auth (client api),
                      req_headers = [(''Content-Type'', ''application/json'')], req_json = None,
                      req_timeout = 30\<rparr>])"
  by (simp add: FivetranClient_list_connectors_def FivetranAPI_get_all_connectors_def
        make_request_sent split_beta Let_def BASE_URL_def)

theorem list_connectors_empty_group_id_witness:
  "''g1'' \<noteq> '''' \<and>
   sent (snd (FivetranAPI_get_all_connectors api0 (Some ''g1'') (answering envelope_ok))) =
     [\<lparr>req_method = ''GET'', req_url = ''https://api.fivetran.com/v1/groups/g1/connectors'',
       req_auth = (''key'', ''secret''),
       req_headers = [(''Content-Type'', ''application/json'')], req_json = None,
       req_timeout = 30\<rparr>]"
  using list_connectors_empty_group_id [of "client api0" "answering envelope_ok" api0 "''g1''"]
  by (simp add: api0_def FivetranAPI_init_def FivetranClient_init_def answering_def)

subsection \<open>Sync and force sync\<close>

text \<open>
  C4: for every connector id, \<^verbatim>\<open>sync_connector(id, force=False)\<close> sends one
  \<^verbatim>\<open>POST\<close> to \<^verbatim>\<open>connectors/{id}/sync\<close> and, when the client call returns, answers with
  the message \<^verbatim>\<open>Connector sync triggered\<close>, which contains \<^verbatim>\<open>sync\<close> and does not contain
  \<^verbatim>\<open>force sync\<close>; with \<^verbatim>\<open>force=True\<close> it sends one \<^verbatim>\<open>POST\<close> to
  \<^verbatim>\<open>connectors/{id}/force\<close> and answers with \<^verbatim>\<open>Connector force sync triggered\<close>, which
  contains \<^verbatim>\<open>force sync\<close>. Containment is that of Python's \<^verbatim>\<open>in\<close> on strings: a
  contiguous sublist.
\<close>

theorem sync_connector_path_and_message:
  "sent (snd (FivetranAPI_sync_connector api cid False net)) =
     sent net @ [\<lparr>req_method = ''POST'',
                  req_url = ''https://api.fivetran.com/v1/connectors/'' @ cid @ ''/sync'',
                  req_auth = auth (client api),
                  req_headers = [(''Content-Type'', ''application/json'')], req_json = None,
                  req_timeout = 30\<rparr>]
   \<and> (fst (FivetranClient_sync_connector (client api) cid False net) = Inr d \<longrightarrow>
        fst (FivetranAPI_sync_connector api cid False net) =
          Inr (PDict [(''success'', PBool True), (''message'', PStr ''Connector sync triggered''),
                      (''data'', d)]))
   \<and> sublist ''sync'' ''Connector sync triggered''
   \<and> \<not> sublist ''force sync'' ''Connector sync triggered''
   \<and> sent (snd (FivetranAPI_sync_connector api cid True net)) =
     sent net @ [\<lparr>req_method = ''POST'',
                  req_url = ''https://api.fivetran.com/v1/connectors/'' @ cid @ ''/force'',
                  req_auth = auth (client api),
                  req_headers = [(''Content-Type'', ''application/json'')], req_json = None,
                  req_timeout = 30\<rparr>]
   \<and> (fst (FivetranClient_sync_connector (client api) cid True net) = Inr d' \<longrightarrow>
        fst (FivetranAPI_sync_connector api cid True net) =
          Inr (PDict [(''success'', PBool True), (''message'', PStr ''Connector force sync triggered''),
                      (''data'', d')]))
   \<and> sublist ''force sync'' ''Connector force sync triggered''"
proof -
  have 1: "sublist ''sync'' ''Connector sync triggered''" by code_simp
  have 2: "\<not> sublist ''force sync'' ''Connector sync triggered''" by code_simp
  have 3: "sublist ''force sync'' ''Connector force sync triggered''" by code_simp
  have 4: "sent (snd (FivetranAPI_sync_connector api cid force net)) =
     sent net @ [\<lparr>req_method = ''POST'',
                  req_url = ''https://api.fivetran.com/v1/connectors/'' @ cid @ ''/'' @ (if force then ''force'' else ''sync''),
                  req_auth = auth (client api),
                  req_headers = [(''Content-Type'', ''application/json'')], req_json = None,
                  req_timeout = 30\<rparr>]" for force
    by (simp add: FivetranAPI_sync_connector_def split_beta client_sent BASE_URL_def)
  have 5: "fst (FivetranClient_sync_connector (client api) cid force net) = Inr x \<longrightarrow>
        fst (FivetranAPI_sync_connector api cid force net) =
          Inr (PDict [(''success'', PBool True),
                      (''message'', PStr (''Connector '' @ (if force then ''force sync'' else ''sync'') @ '' triggered'')),
                      (''data'', x)])" for force x
    by (simp add: FivetranAPI_sync_connector_def split_beta try_except_def exc_bind_def)
  from 1 2 3 4 [of False] 4 [of True] 5 [of False d] 5 [of True d'] show ?thesis by simp
qed

theorem sync_connector_path_and_message_witness:
  "fst (FivetranClient_sync_connector (client api0) ''c1'' False (answering envelope_ok)) =
     Inr (PDict [(''id'', PStr ''c1'')])
   \<and> fst (FivetranAPI_sync_connector api0 ''c1'' False (answering envelope_ok)) =
       Inr (PDict [(''success'', PBool True), (''message'', PStr ''Connector sync triggered''),
                   (''data'', PDict [(''id'', PStr ''c1'')])])
   \<and> fst (FivetranClient_sync_connector (client api0) ''c1'' True (answering envelope_ok)) =
     Inr (PDict [(''id'', PStr ''c1'')])
   \<and> fst (FivetranAPI_sync_connector api0 ''c1'' True (answering envelope_ok)) =
       Inr (PDict [(''success'', PBool True), (''message'', PStr ''Connector force sync triggered''),
                   (''data'', PDict [(''id'', PStr ''c1'')])])"
  using sync_connector_path_and_message [of api0 "''c1''" "answering envelope_ok"
          "PDict [(''id'', PStr ''c1'')]" "PDict [(''id'', PStr ''c1'')]"]
  by (simp add: envelope_ok_client)

subsection \<open>The transport call\<close>

text \<open>
  C9 as stated fails at a status that is neither 2xx nor an error status of the library:
  a response with status 300 and a JSON body does not raise, and its body is returned.
\<close>

theorem make_request_status_300_counterexample:
  "\<not> (200 \<le> (300::nat) \<and> (300::nat) < 300)
   \<and> fst (make_request (client api0) ''GET'' ''connectors'' None
        (answering (Response 300 ''Multiple Choices'' (Json (PDict [(''data'', PDict [])]))))) =
       Inr (PDict [(''data'', PDict [])])"
  by (simp add: make_request_fst answering_def raise_for_status_def exc_bind_def)

text \<open>
  C9, amended: every call of \<^verbatim>\<open>_make_request\<close> sends exactly one request, with timeout 30,
  the content type header and the stored credentials. When the library raises (a
  network-level failure) the same exception leaves the call; on a status from 400 to 599
  the call raises \<^verbatim>\<open>HTTPError\<close> and returns no body; on any other status the parsed JSON
  body is returned as it is, and a body that is not JSON raises \<^verbatim>\<open>JSONDecodeError\<close>.
\<close>

theorem make_request_contract:
  "sent (snd (make_request self method endpoint data net)) =
     sent net @ [\<lparr>req_method = method, req_url = ''https://api.fivetran.com/v1/'' @ endpoint,
                  req_auth = auth self,
                  req_headers = [(''Content-Type'', ''application/json'')], req_json = data,
                  req_timeout = 30\<rparr>]
   \<and> (respond net \<lparr>req_method = method, req_url = ''https://api.fivetran.com/v1/'' @ endpoint,
                    req_auth = auth self,
                    req_headers = [(''Content-Type'', ''application/json'')], req_json = data,
                    req_timeout = 30\<rparr> = Raises e \<longrightarrow>
        fst (make_request self method endpoint data net) = Inl e)
   \<and> (respond net \<lparr>req_method = method, req_url = ''https://api.fivetran.com/v1/'' @ endpoint,
                    req_auth = auth self,
                    req_headers = [(''Content-Type'', ''application/json'')], req_json = data,
                    req_timeout = 30\<rparr> = Response code reason body \<and> 400 \<le> code \<and> code < 600 \<longrightarrow>
        (\<exists>msg. fst (make_request self method endpoint data net) = Inl (PyException HTTPError msg)))
   \<and> (respond net \<lparr>req_method = method, req_url = ''https://api.fivetran.com/v1/'' @ endpoint,
                    req_auth = auth self,
                    req_headers = [(''Content-Type'', ''application/json'')], req_json = data,
                    req_timeout = 30\<rparr> = Response code' reason' (Json v)
        \<and> \<not> (400 \<le> code' \<and> code' < 600) \<longrightarrow>
        fst (make_request self method endpoint data net) = Inr v)
   \<and> (respond net \<lparr>req_method = method, req_url = ''https://api.fivetran.com/v1/'' @ endpoint,
                    req_auth = auth self,
                    req_headers = [(''Content-Type'', ''application/json'')], req_json = data,
                    req_timeout = 30\<rparr> = Response code' reason' (NotJson txt)
        \<and> \<not> (400 \<le> code' \<and> code' < 600) \<longrightarrow>
        fst (make_request self method endpoint data net) = Inl (PyException JSONDecodeError txt))"
proof -
  have u: "BASE_URL @ ''/'' @ endpoint = ''https://api.fivetran.com/v1/'' @ endpoint"
    by (simp add: BASE_URL_def)
  show ?thesis
    unfolding make_request_sent make_request_fst u
    by (auto simp: raise_for_status_def exc_bind_def)
qed

theorem make_request_contract_witness:
  "fst (make_request (client api0) ''GET'' ''connectors'' None (answering (Raises refused))) = Inl refused
   \<and> (400 \<le> (404::nat) \<and> (404::nat) < 600)
   \<and> fst (make_request (client api0) ''GET'' ''connectors/c9'' None (answering not_found)) =
       Inl (PyException HTTPError
         ''404 Client Error: Not Found for url: https://api.fivetran.com/v1/connectors/c9'')
   \<and> \<not> (400 \<le> (200::nat) \<and> (200::nat) < 600)
   \<and> fst (make_request (client api0) ''GET'' ''connectors/c1'' None (answering envelope_ok)) =
       Inr (PDict [(''code'', PStr ''Success''), (''data'', PDict [(''id'', PStr ''c1'')])])
   \<and> fst (make_request (client api0) ''PATCH'' ''connectors/c1'' (Some (PDict [(''paused'', PBool True)]))
        (answering (Response 204 ''No Content'' (NotJson ''Expecting value: line 1 column 1 (char 0)'')))) =
       Inl (PyException JSONDecodeError ''Expecting value: line 1 column 1 (char 0)'')"
  using make_request_contract [of "client api0" "''GET''" "''connectors''" None
          "answering (Raises refused)" refused]
        make_request_contract [of "client api0" "''GET''" "''connectors/c9''" None
          "answering not_found" _ 404 "''Not Found''" "Json (PDict [(''code'', PStr ''NotFound'')])"]
        make_request_contract [of "client api0" "''GET''" "''connectors/c1''" None
          "answering envelope_ok" _ _ _ _ 200 "''OK''"
          "PDict [(''code'', PStr ''Success''), (''data'', PDict [(''id'', PStr ''c1'')])]"]
        make_request_contract [of "client api0" "''PATCH''" "''connectors/c1''"
          "Some (PDict [(''paused'', PBool True)])"
          "answering (Response 204 ''No Content'' (NotJson ''Expecting value: line 1 column 1 (char 0)''))"
          _ _ _ _ 204 "''No Content''" _ "''Expecting value: line 1 column 1 (char 0)''"]
  by (simp add: answering_def not_found_def envelope_ok_def)
     (simp add: make_request_fst raise_for_status_def exc_bind_def str_nat_404 BASE_URL_def)

subsection \<open>Enabling a table\<close>

text \<open>
  C8 as stated fails on a 2xx answer whose body is not a JSON object. On status 204 with
  an empty body \<^verbatim>\<open>raise_for_status\<close> passes, \<^verbatim>\<open>response.json()\<close> raises, and
  \<^verbatim>\<open>toggle_table\<close> returns \<^verbatim>\<open>success\<close> false with the decoding error as its message.
\<close>

theorem toggle_table_204_empty_body_counterexample:
  "200 \<le> (204::nat) \<and> (204::nat) < 300
   \<and> fst (FivetranAPI_toggle_table api0 ''c1'' ''public'' ''orders'' True
          (answering (Response 204 ''No Content''
             (NotJson ''Expecting value: line 1 column 1 (char 0)'')))) =
       Inr (PDict [(''success'', PBool False),
                   (''message'', PStr ''Expecting value: line 1 column 1 (char 0)'')])"
  by (simp add: FivetranAPI_toggle_table_def FivetranClient_update_connector_schema_def split_beta
        Let_def make_request_fst answering_def raise_for_status_def response_data_def
        try_except_def exc_bind_def failure_def)

text \<open>
  C8, amended: for every connector id, schema name and table name,
  \<^verbatim>\<open>toggle_table(connId, schema, table, True)\<close> sends one \<^verbatim>\<open>PATCH\<close> to
  \<^verbatim>\<open>connectors/{connId}/schemas/{schema}/tables/{table}\<close> with the body
  \<^verbatim>\<open>{"enabled": true}\<close>; when the answer has a 2xx status and a JSON object as its body,
  the result has \<^verbatim>\<open>success\<close> true and the message \<^verbatim>\<open>Table {schema}.{table} enabled\<close>,
  which contains \<^verbatim>\<open>enabled\<close>.
\<close>

theorem toggle_table_enable:
  assumes "respond net
             \<lparr>req_method = ''PATCH'',
              req_url = ''https://api.fivetran.com/v1/connectors/'' @ cid @ ''/schemas/'' @ schema
                        @ ''/tables/'' @ table,
              req_auth = auth (client api),
              req_headers = [(''Content-Type'', ''application/json'')],
              req_json = Some (PDict [(''enabled'', PBool True)]),
              req_timeout = 30\<rparr> = Response code reason (Json (PDict env))"
    and "200 \<le> code" and "code < 300"
  shows "sent (snd (FivetranAPI_toggle_table api cid schema table True net)) =
           sent net @
           [\<lparr>req_method = ''PATCH'',
             req_url = ''https://api.fivetran.com/v1/connectors/'' @ cid @ ''/schemas/'' @ schema
                       @ ''/tables/'' @ table,
             req_auth = auth (client api),
             req_headers = [(''Content-Type'', ''application/json'')],
             req_json = Some (PDict [(''enabled'', PBool True)]),
             req_timeout = 30\<rparr>]
         \<and> fst (FivetranAPI_toggle_table api cid schema table True net) =
             Inr (PDict [(''success'', PBool True),
                         (''message'', PStr (''Table '' @ schema @ ''.'' @ table @ '' enabled'')),
                         (''data'', case map_of env ''data'' of None \<Rightarrow> PDict [] | Some v \<Rightarrow> v)])
         \<and> sublist ''enabled'' (''Table '' @ schema @ ''.'' @ table @ '' enabled'')"
proof -
  have s: "sublist ''enabled'' (''Table '' @ schema @ ''.'' @ table @ '' enabled'')"
    using sublist_append_leftI [of "''enabled''" "''Table '' @ schema @ ''.'' @ table @ '' ''"]
    by simp
  have t: "sent (snd (FivetranAPI_toggle_table api cid schema table True net)) =
           sent net @
           [\<lparr>req_method = ''PATCH'',
             req_url = ''https://api.fivetran.com/v1/connectors/'' @ cid @ ''/schemas/'' @ schema
                       @ ''/tables/'' @ table,
             req_auth = auth (client api),
             req_headers = [(''Content-Type'', ''application/json'')],
             req_json = Some (PDict [(''enabled'', PBool True)]),
             req_timeout = 30\<rparr>]"
    by (simp add: FivetranAPI_toggle_table_def split_beta client_sent BASE_URL_def)
  have c: "fst (FivetranClient_update_connector_schema (client api) cid schema table True net) =
             Inr (case map_of env ''data'' of None \<Rightarrow> PDict [] | Some v \<Rightarrow> v)"
    using assms
    by (simp add: FivetranClient_update_connector_schema_def split_beta Let_def make_request_fst
          BASE_URL_def raise_for_status_def exc_bind_def response_data_def)
  have r: "fst (FivetranAPI_toggle_table api cid schema table True net) =
             Inr (PDict [(''success'', PBool True),
                         (''message'', PStr (''Table '' @ schema @ ''.'' @ table @ '' enabled'')),
                         (''data'', case map_of env ''data'' of None \<Rightarrow> PDict [] | Some v \<Rightarrow> v)])"
    by (simp add: FivetranAPI_toggle_table_def split_beta c try_except_def exc_bind_def)
  from s t r show ?thesis by simp
qed

theorem toggle_table_enable_witness:
  "200 \<le> (200::nat) \<and> (200::nat) < 300
   \<and> sent (snd (FivetranAPI_toggle_table api0 ''c1'' ''public'' ''orders'' True (answering envelope_ok))) =
       [\<lparr>req_method = ''PATCH'',
         req_url = ''https://api.fivetran.com/v1/connectors/c1/schemas/public/tables/orders'',
         req_auth = (''key'', ''secret''),
         req_headers = [(''Content-Type'', ''application/json'')],
         req_json = Some (PDict [(''enabled'', PBool True)]),
         req_timeout = 30\<rparr>]
   \<and> fst (FivetranAPI_toggle_table api0 ''c1'' ''public'' ''orders'' True (answering envelope_ok)) =
       Inr (PDict [(''success'', PBool True), (''message'', PStr ''Table public.orders enabled''),
                   (''data'', PDict [(''id'', PStr ''c1'')])])
   \<and> sublist ''enabled'' ''Table public.orders enabled''"
proof -
  have h: "respond (answering envelope_ok)
             \<lparr>req_method = ''PATCH'',
              req_url = ''https://api.fivetran.com/v1/connectors/'' @ ''c1'' @ ''/schemas/'' @ ''public''
                        @ ''/tables/'' @ ''orders'',
              req_auth = auth (client api0),
              req_headers = [(''Content-Type'', ''application/json'')],
              req_json = Some (PDict [(''enabled'', PBool True)]),
              req_timeout = 30\<rparr> =
           Response 200 ''OK'' (Json (PDict [(''code'', PStr ''Success''), (''data'', PDict [(''id'', PStr ''c1'')])]))"
    by (simp add: answering_def envelope_ok_def)
  show ?thesis
    using toggle_table_enable [OF h]
    by (simp add: api0_def FivetranAPI_init_def FivetranClient_init_def answering_def)
qed

subsection \<open>Envelopes without data or without items\<close>

text \<open>
  C7 as stated fails on the envelope \<^verbatim>\<open>{"data": null}\<close>: its \<^verbatim>\<open>data\<close> has no \<^verbatim>\<open>items\<close>
  key, \<^verbatim>\<open>response.get("data", {})\<close> is \<^verbatim>\<open>None\<close> because the key is present, and the
  second \<^verbatim>\<open>.get\<close> raises \<^verbatim>\<open>AttributeError\<close>, which \<^verbatim>\<open>get_all_groups\<close> and
  \<^verbatim>\<open>get_all_connectors\<close> propagate instead of returning an empty sequence.
\<close>

theorem list_operations_data_null_counterexample:
  "map_of [(''data'', PNone)] ''data'' = Some PNone
   \<and> fst (FivetranAPI_get_all_groups api0
          (answering (Response 200 ''OK'' (Json (PDict [(''data'', PNone)]))))) =
       Inl (PyException AttributeError
              (quoted ''NoneType'' @ '' object has no attribute '' @ quoted ''get''))
   \<and> fst (FivetranAPI_get_all_connectors api0 None
          (answering (Response 200 ''OK'' (Json (PDict [(''data'', PNone)]))))) =
       Inl (PyException AttributeError
              (quoted ''NoneType'' @ '' object has no attribute '' @ quoted ''get''))"
  by (simp add: FivetranAPI_get_all_groups_def FivetranAPI_get_all_connectors_def split_beta
        try_except_def exc_bind_def list_client_fst make_request_fst answering_def
        raise_for_status_def response_items_def no_attribute_def)

text \<open>
  C7, amended: when the envelope that \<^verbatim>\<open>_make_request\<close> returns for a list endpoint is a
  JSON object that has no \<^verbatim>\<open>data\<close> key, or whose \<^verbatim>\<open>data\<close> is a JSON object with no
  \<^verbatim>\<open>items\<close> key, the client methods \<^verbatim>\<open>list_groups\<close> and \<^verbatim>\<open>list_connectors\<close> return the
  empty list, and \<^verbatim>\<open>get_all_groups\<close> and \<^verbatim>\<open>get_all_connectors\<close> return the empty list;
  none of them raises.
\<close>

theorem list_operations_empty_envelope:
  "(fst (make_request (client api) ''GET'' ''groups'' None net) = Inr (PDict env)
      \<and> (map_of env ''data'' = None
          \<or> (\<exists>d. map_of env ''data'' = Some (PDict d) \<and> map_of d ''items'' = None)) \<longrightarrow>
      fst (FivetranClient_list_groups (client api) net) = Inr (PList [])
      \<and> fst (FivetranAPI_get_all_groups api net) = Inr [])
   \<and> (fst (make_request (client api) ''GET''
            (case gid of Some g \<Rightarrow> if g \<noteq> [] then ''groups/'' @ g @ ''/connectors'' else ''connectors''
             | None \<Rightarrow> ''connectors'') None net) = Inr (PDict env')
      \<and> (map_of env' ''data'' = None
          \<or> (\<exists>d. map_of env' ''data'' = Some (PDict d) \<and> map_of d ''items'' = None)) \<longrightarrow>
      fst (FivetranClient_list_connectors (client api) gid net) = Inr (PList [])
      \<and> fst (FivetranAPI_get_all_connectors api gid net) = Inr [])"
proof -
  have g: "fst (FivetranClient_list_groups (client api) net) = Inr (PList []) \<Longrightarrow>
           fst (FivetranAPI_get_all_groups api net) = Inr []"
    by (simp add: FivetranAPI_get_all_groups_def split_beta try_except_def exc_bind_def)
  have c: "fst (FivetranClient_list_connectors (client api) gid net) = Inr (PList []) \<Longrightarrow>
           fst (FivetranAPI_get_all_connectors api gid net) = Inr []"
    by (simp add: FivetranAPI_get_all_connectors_def split_beta try_except_def exc_bind_def)
  show ?thesis
    using g c by (auto simp: list_client_fst response_items_lacking)
qed

theorem list_operations_empty_envelope_witness:
  "fst (make_request (client api0) ''GET'' ''groups'' None
          (answering (Response 200 ''OK'' (Json (PDict [(''code'', PStr ''Success'')]))))) =
     Inr (PDict [(''code'', PStr ''Success'')])
   \<and> map_of [(''code'', PStr ''Success'')] ''data'' = None
   \<and> fst (FivetranAPI_get_all_groups api0
          (answering (Response 200 ''OK'' (Json (PDict [(''code'', PStr ''Success'')]))))) = Inr []
   \<and> fst (make_request (client api0) ''GET'' ''connectors'' None (answering envelope_ok)) =
     Inr (PDict [(''code'', PStr ''Success''), (''data'', PDict [(''id'', PStr ''c1'')])])
   \<and> map_of [(''code'', PStr ''Success''), (''data'', PDict [(''id'', PStr ''c1'')])] ''data'' =
       Some (PDict [(''id'', PStr ''c1'')])
   \<and> map_of [(''id'', PStr ''c1'')] ''items'' = None
   \<and> fst (FivetranAPI_get_all_connectors api0 None (answering envelope_ok)) = Inr []"
proof -
  have 1: "fst (make_request (client api0) ''GET'' ''groups'' None
          (answering (Response 200 ''OK'' (Json (PDict [(''code'', PStr ''Success'')]))))) =
     Inr (PDict [(''code'', PStr ''Success'')])"
    by (simp add: make_request_fst answering_def raise_for_status_def exc_bind_def)
  have 2: "fst (make_request (client api0) ''GET'' ''connectors'' None (answering envelope_ok)) =
     Inr (PDict [(''code'', PStr ''Success''), (''data'', PDict [(''id'', PStr ''c1'')])])"
    by (simp add: make_request_fst answering_def envelope_ok_def raise_for_status_def exc_bind_def)
  show ?thesis
    using list_operations_empty_envelope [of api0
            "answering (Response 200 ''OK'' (Json (PDict [(''code'', PStr ''Success'')])))"
            "[(''code'', PStr ''Success'')]" None "[]"]
          list_operations_empty_envelope [of api0 "answering envelope_ok" "[]" None
            "[(''code'', PStr ''Success''), (''data'', PDict [(''id'', PStr ''c1'')])]"]
          1 2
    by simp
qed

subsection \<open>The derived status of the summary\<close>

lemma py_get_Inr:
  "py_get v k d = Inr x \<Longrightarrow> \<exists>kvs. v = PDict kvs \<and> x = (case map_of kvs k of None \<Rightarrow> d | Some w \<Rightarrow> w)"
  by (cases v) auto

lemma truthy_paused_default:
  "truthy (case m of None \<Rightarrow> PBool False | Some v \<Rightarrow> v) = truthy (case m of None \<Rightarrow> PNone | Some v \<Rightarrow> v)"
  by (cases m) simp_all

lemma connector_summary_Inr:
  assumes "connector_summary c = Inr r"
  shows "\<exists>raw kvs. c = PDict raw \<and> r = PDict kvs
           \<and> map_of kvs ''paused'' = Some (case map_of raw ''paused'' of None \<Rightarrow> PBool False | Some v \<Rightarrow> v)
           \<and> map_of kvs ''status'' =
               Some (PStr (if truthy (case map_of raw ''paused'' of None \<Rightarrow> PBool False | Some v \<Rightarrow> v)
                           then ''Paused'' else ''Active''))"
proof (cases c)
  case (PDict raw)
  obtain st where st: "py_get c ''status'' (PDict []) = Inr st"
    by (simp add: PDict)
  show ?thesis
  proof (cases "py_get st ''sync_state'' PNone")
    case (Inl e)
    with assms st PDict show ?thesis
      by (simp add: connector_summary_def exc_bind_def)
  next
    case (Inr x)
    then obtain skvs where skvs: "st = PDict skvs"
      by (auto dest: py_get_Inr)
    with assms st PDict show ?thesis
      by (auto simp: connector_summary_def exc_bind_def truthy_paused_default)
  qed
qed (use assms in \<open>simp_all add: connector_summary_def exc_bind_def\<close>)

lemma connectors_loop_Inr:
  "connectors_loop items formatted = Inr out \<Longrightarrow> r \<in> set out \<Longrightarrow>
   r \<in> set formatted \<or> (\<exists>c \<in> set items. connector_summary c = Inr r)"
proof (induction items arbitrary: formatted)
  case Nil
  then show ?case by simp
next
  case (Cons c cs)
  from Cons.prems(1) obtain d where d: "connector_summary c = Inr d"
    and rest: "connectors_loop cs (formatted @ [d]) = Inr out"
    by (cases "connector_summary c") (simp_all add: exc_bind_def)
  from Cons.IH [OF rest Cons.prems(2)] d show ?case by auto
qed

lemma get_all_connectors_Inr:
  assumes "fst (FivetranAPI_get_all_connectors api gid net) = Inr records" and "r \<in> set records"
  shows "\<exists>c. connector_summary c = Inr r"
proof -
  from assms(1) obtain cs items where "py_iter cs = Inr items"
    and "connectors_loop items [] = Inr records"
    by (auto simp: FivetranAPI_get_all_connectors_def split_beta try_except_def exc_bind_def
          split: sum.splits)
  with connectors_loop_Inr [of items "[]" records r] assms(2) show ?thesis by auto
qed

text \<open>
  C3 as stated fails on a payload whose \<^verbatim>\<open>paused\<close> is \<^verbatim>\<open>null\<close>: the emitted record has
  the status \<^verbatim>\<open>Active\<close> and the emitted \<^verbatim>\<open>paused\<close> is \<^verbatim>\<open>None\<close>, which is not the
  boolean false.
\<close>

theorem summary_status_paused_null_counterexample:
  "fst (FivetranAPI_get_all_connectors api0 None
     (answering (Response 200 ''OK'' (Json (PDict [(''data'', PDict [(''items'',
        PList [PDict [(''id'', PStr ''c1''), (''paused'', PNone)]])])]))))) =
     Inr [PDict [(''id'', PStr ''c1''), (''name'', PNone), (''service'', PNone),
                 (''status'', PStr ''Active''), (''sync_state'', PNone), (''setup_state'', PNone),
                 (''last_sync'', PNone), (''failed_at'', PNone), (''paused'', PNone),
                 (''group_id'', PNone)]]
   \<and> PNone \<noteq> PBool False"
  by (simp add: FivetranAPI_get_all_connectors_def split_beta try_except_def exc_bind_def
        list_client_fst make_request_fst answering_def raise_for_status_def response_items_def
        connector_summary_def)

text \<open>
  C3, amended: in every record \<^verbatim>\<open>get_all_connectors\<close> emits, for any raw payload, the
  status is \<^verbatim>\<open>Active\<close> exactly when the emitted \<^verbatim>\<open>paused\<close> value is false by Python's
  truth test (\<^verbatim>\<open>False\<close>, \<^verbatim>\<open>None\<close>, zero, empty) and \<^verbatim>\<open>Paused\<close> exactly when it is
  true by that test. When the emitted \<^verbatim>\<open>paused\<close> is a boolean, the status is \<^verbatim>\<open>Active\<close>
  for false and \<^verbatim>\<open>Paused\<close> for true.
\<close>

theorem summary_status_agrees_with_paused:
  assumes "fst (FivetranAPI_get_all_connectors api gid net) = Inr records" and "r \<in> set records"
  shows "\<exists>kvs p. r = PDict kvs \<and> map_of kvs ''paused'' = Some p
           \<and> (map_of kvs ''status'' = Some (PStr ''Active'') \<longleftrightarrow> \<not> truthy p)
           \<and> (map_of kvs ''status'' = Some (PStr ''Paused'') \<longleftrightarrow> truthy p)
           \<and> (p = PBool False \<longrightarrow> map_of kvs ''status'' = Some (PStr ''Active''))
           \<and> (p = PBool True \<longrightarrow> map_of kvs ''status'' = Some (PStr ''Paused''))"
proof -
  from get_all_connectors_Inr [OF assms] obtain c where "connector_summary c = Inr r" ..
  from connector_summary_Inr [OF this] obtain raw kvs where
    r: "r = PDict kvs"
    and p: "map_of kvs ''paused'' = Some (case map_of raw ''paused'' of None \<Rightarrow> PBool False | Some v \<Rightarrow> v)"
    and s: "map_of kvs ''status'' =
               Some (PStr (if truthy (case map_of raw ''paused'' of None \<Rightarrow> PBool False | Some v \<Rightarrow> v)
                           then ''Paused'' else ''Active''))"
    by blast
  show ?thesis
    using r p s by auto
qed

lemma summary_paused_payload:
  "fst (FivetranAPI_get_all_connectors api0 None (answering (listing [paused_payload]))) =
     Inr [PDict [(''id'', PStr ''c1''), (''name'', PNone), (''service'', PNone),
                 (''status'', PStr ''Paused''), (''sync_state'', PStr ''paused''),
                 (''setup_state'', PNone), (''last_sync'', PNone), (''failed_at'', PNone),
                 (''paused'', PBool True), (''group_id'', PNone)]]"
  by (simp add: FivetranAPI_get_all_connectors_def split_beta try_except_def exc_bind_def
        list_client_fst make_request_fst answering_def raise_for_status_def response_items_def
        connector_summary_def listing_def paused_payload_def)

theorem summary_status_agrees_with_paused_witness:
  "fst (FivetranAPI_get_all_connectors api0 None (answering (listing [paused_payload]))) =
     Inr [PDict [(''id'', PStr ''c1''), (''name'', PNone), (''service'', PNone),
                 (''status'', PStr ''Paused''), (''sync_state'', PStr ''paused''),
                 (''setup_state'', PNone), (''last_sync'', PNone), (''failed_at'', PNone),
                 (''paused'', PBool True), (''group_id'', PNone)]]
   \<and> (\<exists>kvs p. PDict [(''id'', PStr ''c1''), (''name'', PNone), (''service'', PNone),
                 (''status'', PStr ''Paused''), (''sync_state'', PStr ''paused''),
                 (''setup_state'', PNone), (''last_sync'', PNone), (''failed_at'', PNone),
                 (''paused'', PBool True), (''group_id'', PNone)] = PDict kvs
         \<and> map_of kvs ''paused'' = Some p \<and> truthy p
         \<and> map_of kvs ''status'' = Some (PStr ''Paused''))"
  using summary_status_agrees_with_paused [OF summary_paused_payload,
          of "PDict [(''id'', PStr ''c1''), (''name'', PNone), (''service'', PNone),
                 (''status'', PStr ''Paused''), (''sync_state'', PStr ''paused''),
                 (''setup_state'', PNone), (''last_sync'', PNone), (''failed_at'', PNone),
                 (''paused'', PBool True), (''group_id'', PNone)]"]
  by (simp add: summary_paused_payload)

subsection \<open>The status of the detail projection\<close>

lemma connector_detail_Inr:
  assumes "connector_detail c = Inr d"
  shows "\<exists>raw kvs. c = PDict raw \<and> d = PDict kvs
           \<and> map_of kvs ''paused'' = Some (case map_of raw ''paused'' of None \<Rightarrow> PNone | Some v \<Rightarrow> v)
           \<and> map_of kvs ''status'' = Some (case map_of raw ''status'' of None \<Rightarrow> PNone | Some v \<Rightarrow> v)
           \<and> (\<exists>skvs. (case map_of raw ''status'' of None \<Rightarrow> PDict [] | Some v \<Rightarrow> v) = PDict skvs)"
proof (cases c)
  case (PDict raw)
  obtain st where st: "py_get c ''status'' (PDict []) = Inr st"
    by (simp add: PDict)
  show ?thesis
  proof (cases "py_get st ''setup_state'' PNone")
    case (Inl e)
    with assms st PDict show ?thesis
      by (simp add: connector_detail_def exc_bind_def)
  next
    case (Inr x)
    then obtain skvs where skvs: "st = PDict skvs"
      by (auto dest: py_get_Inr)
    with assms st PDict show ?thesis
      by (auto simp: connector_detail_def exc_bind_def)
  qed
qed (use assms in \<open>simp_all add: connector_detail_def exc_bind_def\<close>)

lemma connector_summary_of_dict:
  assumes "(case map_of raw ''status'' of None \<Rightarrow> PDict [] | Some v \<Rightarrow> v) = PDict skvs"
  shows "\<exists>s. connector_summary (PDict raw) = Inr (PDict s)"
  using assms by (simp add: connector_summary_def exc_bind_def)

text \<open>
  C6 as stated fails: for the same payload, with \<^verbatim>\<open>paused\<close> true and a nested status
  object, the summary emits the derived status \<^verbatim>\<open>Paused\<close> and the detail projection
  emits the nested status object under \<^verbatim>\<open>status\<close>. The detail projection derives no
  \<^verbatim>\<open>Active\<close>/\<^verbatim>\<open>Paused\<close> value.
\<close>

theorem detail_status_not_derived_counterexample:
  "fst (FivetranAPI_get_all_connectors api0 None (answering (listing [paused_payload]))) =
     Inr [PDict [(''id'', PStr ''c1''), (''name'', PNone), (''service'', PNone),
                 (''status'', PStr ''Paused''), (''sync_state'', PStr ''paused''),
                 (''setup_state'', PNone), (''last_sync'', PNone), (''failed_at'', PNone),
                 (''paused'', PBool True), (''group_id'', PNone)]]
   \<and> fst (FivetranAPI_get_connector_details api0 ''c1'' (answering (single paused_payload))) =
     Inr (PDict [(''id'', PStr ''c1''), (''name'', PNone), (''service'', PNone),
                 (''paused'', PBool True), (''sync_frequency'', PNone),
                 (''daily_sync_time'', PNone), (''schedule_type'', PNone),
                 (''status'', PDict [(''sync_state'', PStr ''paused'')]),
                 (''setup_state'', PNone), (''sync_state'', PStr ''paused''),
                 (''update_state'', PNone), (''succeeded_at'', PNone), (''failed_at'', PNone),
                 (''config'', PNone), (''group_id'', PNone)])
   \<and> PStr ''Paused'' \<noteq> PDict [(''sync_state'', PStr ''paused'')]"
  by (simp add: summary_paused_payload)
     (simp add: FivetranAPI_get_connector_details_def split_beta try_except_def exc_bind_def
        client_defs make_request_fst answering_def raise_for_status_def response_data_def
        connector_detail_def single_def paused_payload_def)

text \<open>
  C6, amended: for every raw connector payload that \<^verbatim>\<open>get_connector_details\<close> projects,
  the emitted \<^verbatim>\<open>paused\<close> is the raw flag (\<^verbatim>\<open>None\<close> when absent) and the emitted
  \<^verbatim>\<open>status\<close> is the raw nested status object (\<^verbatim>\<open>None\<close> when absent); the summary
  projection of the same payload exists, and its derived status is \<^verbatim>\<open>Paused\<close> when the
  \<^verbatim>\<open>paused\<close> value the detail emits is true by Python's truth test and \<^verbatim>\<open>Active\<close>
  otherwise.
\<close>

theorem detail_emits_raw_paused_and_status:
  assumes "connector_detail c = Inr d"
  shows "\<exists>raw kvs s.
           c = PDict raw \<and> d = PDict kvs
           \<and> map_of kvs ''paused'' = Some (case map_of raw ''paused'' of None \<Rightarrow> PNone | Some v \<Rightarrow> v)
           \<and> map_of kvs ''status'' = Some (case map_of raw ''status'' of None \<Rightarrow> PNone | Some v \<Rightarrow> v)
           \<and> connector_summary c = Inr (PDict s)
           \<and> map_of s ''status'' =
               Some (PStr (if truthy (case map_of raw ''paused'' of None \<Rightarrow> PNone | Some v \<Rightarrow> v)
                           then ''Paused'' else ''Active''))"
proof -
  from connector_detail_Inr [OF assms] obtain raw kvs skvs where
    c: "c = PDict raw" and d: "d = PDict kvs"
    and p: "map_of kvs ''paused'' = Some (case map_of raw ''paused'' of None \<Rightarrow> PNone | Some v \<Rightarrow> v)"
    and st: "map_of kvs ''status'' = Some (case map_of raw ''status'' of None \<Rightarrow> PNone | Some v \<Rightarrow> v)"
    and sk: "(case map_of raw ''status'' of None \<Rightarrow> PDict [] | Some v \<Rightarrow> v) = PDict skvs"
    by blast
  from connector_summary_of_dict [OF sk] obtain s where s: "connector_summary (PDict raw) = Inr (PDict s)" ..
  from connector_summary_Inr [OF s] have
    "map_of s ''status'' =
       Some (PStr (if truthy (case map_of raw ''paused'' of None \<Rightarrow> PBool False | Some v \<Rightarrow> v)
                   then ''Paused'' else ''Active''))"
    by auto
  then have "map_of s ''status'' =
       Some (PStr (if truthy (case map_of raw ''paused'' of None \<Rightarrow> PNone | Some v \<Rightarrow> v)
                   then ''Paused'' else ''Active''))"
    by (simp add: truthy_paused_default)
  with c d p st s show ?thesis by blast
qed

lemma detail_paused_payload:
  "connector_detail paused_payload =
     Inr (PDict [(''id'', PStr ''c1''), (''name'', PNone), (''service'', PNone),
                 (''paused'', PBool True), (''sync_frequency'', PNone),
                 (''daily_sync_time'', PNone), (''schedule_type'', PNone),
                 (''status'', PDict [(''sync_state'', PStr ''paused'')]),
                 (''setup_state'', PNone), (''sync_state'', PStr ''paused''),
                 (''update_state'', PNone), (''succeeded_at'', PNone), (''failed_at'', PNone),
                 (''config'', PNone), (''group_id'', PNone)])"
  by (simp add: connector_detail_def exc_bind_def paused_payload_def)

lemma get_connector_details_projection:
  "fst (FivetranClient_get_connector (client api) cid net) = Inr c \<Longrightarrow>
   fst (FivetranAPI_get_connector_details api cid net) = connector_detail c"
  by (simp add: FivetranAPI_get_connector_details_def split_beta try_except_reraise exc_bind_def)

theorem detail_emits_raw_paused_and_status_witness:
  "connector_detail paused_payload =
     Inr (PDict [(''id'', PStr ''c1''), (''name'', PNone), (''service'', PNone),
                 (''paused'', PBool True), (''sync_frequency'', PNone),
                 (''daily_sync_time'', PNone), (''schedule_type'', PNone),
                 (''status'', PDict [(''sync_state'', PStr ''paused'')]),
                 (''setup_state'', PNone), (''sync_state'', PStr ''paused''),
                 (''update_state'', PNone), (''succeeded_at'', PNone), (''failed_at'', PNone),
                 (''config'', PNone), (''group_id'', PNone)])
   \<and> (\<exists>s. connector_summary paused_payload = Inr (PDict s)
            \<and> map_of s ''status'' = Some (PStr ''Paused''))"
  using detail_emits_raw_paused_and_status [OF detail_paused_payload]
  by (simp add: detail_paused_payload) (auto simp: paused_payload_def)

subsection \<open>The shape of the results\<close>

text \<open>
  C5 as stated fails for \<^verbatim>\<open>get_connector_schemas\<close>: its success result is
  \<^verbatim>\<open>{"success": True, "data": schemas}\<close>, with no \<^verbatim>\<open>message\<close> key.
\<close>

theorem get_connector_schemas_no_message_counterexample:
  "fst (FivetranAPI_get_connector_schemas api0 ''c1'' (answering envelope_ok)) =
     Inr (PDict [(''success'', PBool True), (''data'', PDict [(''id'', PStr ''c1'')])])
   \<and> map_of [(''success'', PBool True), (''data'', PDict [(''id'', PStr ''c1'')])] ''message'' = None
   \<and> \<not> operation_result_shape (PDict [(''success'', PBool True), (''data'', PDict [(''id'', PStr ''c1'')])])"
  by (simp add: FivetranAPI_get_connector_schemas_def split_beta envelope_ok_client
        try_except_def exc_bind_def)

lemma wrapped_shape:
  assumes "\<And>v. \<exists>m. f v = Inr (PDict [(''success'', PBool True), (''message'', PStr m), (''data'', v)])"
  shows "\<exists>res. try_except (exc_bind r f) failure = Inr res \<and> operation_result_shape res"
proof (cases r)
  case (Inl e)
  then show ?thesis
    by (simp add: try_except_def exc_bind_def failure_def)
next
  case (Inr v)
  from assms [of v] obtain m where
    "f v = Inr (PDict [(''success'', PBool True), (''message'', PStr m), (''data'', v)])" ..
  with Inr show ?thesis
    by (simp add: try_except_def exc_bind_def)
qed

text \<open>
  C5, amended: activate, pause, sync, resyncTable, toggleTable and testConnection always
  return a result of the Operation Result shape. \<^verbatim>\<open>get_connector_schemas\<close> returns that
  shape when the client call raises; when the client call returns \<open>d\<close>, its result is
  exactly \<^verbatim>\<open>{"success": True, "data": d}\<close>.
\<close>

theorem wrapped_operations_result_shape:
  "(\<exists>res. fst (FivetranAPI_activate_connector api cid net) = Inr res \<and> operation_result_shape res)
   \<and> (\<exists>res. fst (FivetranAPI_pause_connector api cid net) = Inr res \<and> operation_result_shape res)
   \<and> (\<exists>res. fst (FivetranAPI_sync_connector api cid force net) = Inr res \<and> operation_result_shape res)
   \<and> (\<exists>res. fst (FivetranAPI_resync_table api cid schema table net) = Inr res
         \<and> operation_result_shape res)
   \<and> (\<exists>res. fst (FivetranAPI_toggle_table api cid schema table enabled net) = Inr res
         \<and> operation_result_shape res)
   \<and> (\<exists>res. fst (FivetranAPI_test_connection api cid net) = Inr res \<and> operation_result_shape res)
   \<and> (fst (FivetranClient_get_connector_schemas (client api) cid net) = Inl e \<longrightarrow>
        (\<exists>res. fst (FivetranAPI_get_connector_schemas api cid net) = Inr res
           \<and> operation_result_shape res))
   \<and> (fst (FivetranClient_get_connector_schemas (client api) cid net) = Inr d \<longrightarrow>
        fst (FivetranAPI_get_connector_schemas api cid net) =
          Inr (PDict [(''success'', PBool True), (''data'', d)]))"
proof -
  have a: "\<exists>res. fst (FivetranAPI_activate_connector api cid net) = Inr res \<and> operation_result_shape res"
    by (simp add: FivetranAPI_activate_connector_def split_beta wrapped_shape)
  have p: "\<exists>res. fst (FivetranAPI_pause_connector api cid net) = Inr res \<and> operation_result_shape res"
    by (simp add: FivetranAPI_pause_connector_def split_beta wrapped_shape)
  have s: "\<exists>res. fst (FivetranAPI_sync_connector api cid force net) = Inr res \<and> operation_result_shape res"
    by (simp add: FivetranAPI_sync_connector_def split_beta wrapped_shape)
  have r: "\<exists>res. fst (FivetranAPI_resync_table api cid schema table net) = Inr res
         \<and> operation_result_shape res"
    by (simp add: FivetranAPI_resync_table_def split_beta wrapped_shape)
  have t: "\<exists>res. fst (FivetranAPI_toggle_table api cid schema table enabled net) = Inr res
         \<and> operation_result_shape res"
    by (simp add: FivetranAPI_toggle_table_def split_beta wrapped_shape)
  have c: "\<exists>res. fst (FivetranAPI_test_connection api cid net) = Inr res \<and> operation_result_shape res"
    by (simp add: FivetranAPI_test_connection_def split_beta wrapped_shape)
  have g: "fst (FivetranClient_get_connector_schemas (client api) cid net) = Inl e \<longrightarrow>
        (\<exists>res. fst (FivetranAPI_get_connector_schemas api cid net) = Inr res
           \<and> operation_result_shape res)"
    by (simp add: FivetranAPI_get_connector_schemas_def split_beta try_except_def exc_bind_def
          failure_def)
  have g': "fst (FivetranClient_get_connector_schemas (client api) cid net) = Inr d \<longrightarrow>
        fst (FivetranAPI_get_connector_schemas api cid net) =
          Inr (PDict [(''success'', PBool True), (''data'', d)])"
    by (simp add: FivetranAPI_get_connector_schemas_def split_beta try_except_def exc_bind_def)
  from a p s r t c g g' show ?thesis by blast
qed

theorem wrapped_operations_result_shape_witness:
  "fst (FivetranClient_get_connector_schemas (client api0) ''c1'' (answering (Raises refused))) = Inl refused
   \<and> fst (FivetranAPI_get_connector_schemas api0 ''c1'' (answering (Raises refused))) =
       Inr (PDict [(''success'', PBool False), (''message'', PStr ''Connection refused'')])
   \<and> operation_result_shape (PDict [(''success'', PBool False), (''message'', PStr ''Connection refused'')])
   \<and> fst (FivetranClient_get_connector_schemas (client api0) ''c1'' (answering envelope_ok)) =
       Inr (PDict [(''id'', PStr ''c1'')])
   \<and> fst (FivetranAPI_get_connector_schemas api0 ''c1'' (answering envelope_ok)) =
       Inr (PDict [(''success'', PBool True), (''data'', PDict [(''id'', PStr ''c1'')])])"
  using wrapped_operations_result_shape [of api0 "''c1''" "answering (Raises refused)" True
          "''public''" "''orders''" True refused "PNone"]
        wrapped_operations_result_shape [of api0 "''c1''" "answering envelope_ok" True
          "''public''" "''orders''" True refused "PDict [(''id'', PStr ''c1'')]"]
  by (simp add: refused_client envelope_ok_client)
     (auto simp: FivetranAPI_get_connector_schemas_def split_beta refused_client try_except_def
        exc_bind_def failure_def refused_def)

end
